theory Spec2Isabelle
  imports Complex_Main "HOL-Library.AList"
begin

section \<open>Python values seen by the decoder\<close>

text \<open>
  The reader (\<^verbatim>\<open>reader.py\<close>) dispatches with \<^verbatim>\<open>isinstance\<close> over h5py objects, numpy
  arrays and records, byte strings, lists and tuples; everything else is returned as it
  is. One datatype holds all of these, since the output of one call of
  \<^verbatim>\<open>decode_group\<close> is the input of another.
\<close>

text \<open>Exceptions as values. \<open>InsufficientDataError\<close> is the error named by the
  specification for the grid processor; no statement of the source raises it.\<close>

datatype pyerr = TypeError | IndexError | ValueError | OSError | UnicodeDecodeError
  | InsufficientDataError

text \<open>A float64: a finite value, an infinity or not-a-number.\<close>

datatype fl = Fin real | PInf | MInf | NaN

datatype number = IntN int | FloatN fl

text \<open>A Python \<^verbatim>\<open>str\<close> is a sequence of code points; \<^verbatim>\<open>bytes\<close> is a sequence of
  octets.\<close>

type_synonym pystr = "nat list"

definition str :: "string \<Rightarrow> pystr" where
  "str s = map of_char s"

text \<open>What the code asks of a numpy dtype: is it a sub-dtype of \<^verbatim>\<open>np.number\<close>, is it
  \<^verbatim>\<open>object\<close>, is it a structured (\<^verbatim>\<open>np.void\<close>) dtype and then which are its field
  names. Every other dtype (bool, fixed-width bytes or text, ...) is \<open>OtherT\<close>.\<close>

datatype dtype = NumberT | ObjectT | VoidT "pystr list" | OtherT

text \<open>
  \<^item> \<open>Group children attrs\<close>: an \<^verbatim>\<open>h5py.Group\<close> (or file), its members in the order of
    \<^verbatim>\<open>g.keys()\<close> and the items of \<^verbatim>\<open>g.attrs\<close>;
  \<^item> \<open>AttributeManager items\<close>: an \<^verbatim>\<open>h5py.AttributeManager\<close>;
  \<^item> \<open>Dataset attrs raw\<close>: an \<^verbatim>\<open>h5py.Dataset\<close>; \<open>raw\<close> is what \<^verbatim>\<open>g[()]\<close> gives,
    \<open>None\<close> when that read raises;
  \<^item> \<open>NDArray t shape items\<close>: an \<^verbatim>\<open>np.ndarray\<close> with its dtype and shape; \<open>items\<close> is
    what iterating over it yields (scalars for a 1-d array, the sub-arrays along the
    first axis otherwise), and the one value of a 0-d array;
  \<^item> \<open>Void fields\<close>: one record (\<^verbatim>\<open>np.void\<close>) of a structured array, its field values;
  \<^item> \<open>Bytes\<close>, \<open>PyList\<close>, \<open>PyTuple\<close>, \<open>PyDict\<close>, \<open>PyStr\<close>, \<open>Num\<close>, \<open>PyBool\<close>,
    \<open>PyNone\<close>: the plain Python values.
\<close>

datatype pyval =
    Group "(pystr \<times> pyval) list" "(pystr \<times> pyval) list"
  | AttributeManager "(pystr \<times> pyval) list"
  | Dataset "(pystr \<times> pyval) list" "pyval option"
  | NDArray dtype "nat list" "pyval list"
  | Void "pyval list"
  | Bytes "nat list"
  | PyList "pyval list"
  | PyTuple "pyval list"
  | PyDict "(pystr \<times> pyval) list"
  | PyStr pystr
  | Num number
  | PyBool bool
  | PyNone

subsection \<open>Built-ins of Python the decoder relies on\<close>

text \<open>\<^verbatim>\<open>d[k] = v\<close> on a dict keeps the position of a key already present and appends a
  new key, as \<^const>\<open>AList.update\<close> does. \<open>py_dict\<close> is \<^verbatim>\<open>dict(pairs)\<close> and the dict
  comprehension: the pairs are stored from left to right, a later one overwriting.\<close>

definition py_dict :: "(pystr \<times> pyval) list \<Rightarrow> (pystr \<times> pyval) list" where
  "py_dict kvs = foldl (\<lambda>d (k, v). AList.update k v d) [] kvs"

text \<open>\<^verbatim>\<open>bytes.decode()\<close>: strict UTF-8. Over-long forms, surrogates, code points beyond
  \<open>0x10FFFF\<close> and truncated sequences raise \<^verbatim>\<open>UnicodeDecodeError\<close>.\<close>

definition cont :: "nat \<Rightarrow> bool" where
  "cont b \<longleftrightarrow> 128 \<le> b \<and> b < 192"

fun utf8_decode :: "nat list \<Rightarrow> pyerr + pystr" where
  "utf8_decode [] = Inr []"
| "utf8_decode (b0 # bs) =
     (if b0 < 128 then
        (case utf8_decode bs of Inl e \<Rightarrow> Inl e | Inr s \<Rightarrow> Inr (b0 # s))
      else if 194 \<le> b0 \<and> b0 < 224 then
        (case bs of
           b1 # r \<Rightarrow>
             if cont b1 then
               (case utf8_decode r of Inl e \<Rightarrow> Inl e
                | Inr s \<Rightarrow> Inr (((b0 - 192) * 64 + (b1 - 128)) # s))
             else Inl UnicodeDecodeError
         | _ \<Rightarrow> Inl UnicodeDecodeError)
      else if 224 \<le> b0 \<and> b0 < 240 then
        (case bs of
           b1 # b2 # r \<Rightarrow>
             (let cp = (b0 - 224) * 4096 + (b1 - 128) * 64 + (b2 - 128)
              in if cont b1 \<and> cont b2 \<and> 2048 \<le> cp \<and> \<not> (55296 \<le> cp \<and> cp \<le> 57343) then
                   (case utf8_decode r of Inl e \<Rightarrow> Inl e | Inr s \<Rightarrow> Inr (cp # s))
                 else Inl UnicodeDecodeError)
         | _ \<Rightarrow> Inl UnicodeDecodeError)
      else if 240 \<le> b0 \<and> b0 < 245 then
        (case bs of
           b1 # b2 # b3 # r \<Rightarrow>
             (let cp = (b0 - 240) * 262144 + (b1 - 128) * 4096 + (b2 - 128) * 64 + (b3 - 128)
              in if cont b1 \<and> cont b2 \<and> cont b3 \<and> 65536 \<le> cp \<and> cp \<le> 1114111 then
                   (case utf8_decode r of Inl e \<Rightarrow> Inl e | Inr s \<Rightarrow> Inr (cp # s))
                 else Inl UnicodeDecodeError)
         | _ \<Rightarrow> Inl UnicodeDecodeError)
      else Inl UnicodeDecodeError)"

text \<open>Iteration (\<^verbatim>\<open>for x in v\<close>, and the second argument of \<^verbatim>\<open>zip\<close>): a number is not
  iterable, nor is a 0-d array; a string yields its characters, a dict and an h5py
  group or attribute manager their keys, a dataset what its value yields.\<close>

fun py_iter :: "pyval \<Rightarrow> pyerr + pyval list" where
  "py_iter (PyList xs) = Inr xs"
| "py_iter (PyTuple xs) = Inr xs"
| "py_iter (PyStr s) = Inr (map (\<lambda>c. PyStr [c]) s)"
| "py_iter (PyDict d) = Inr (map (\<lambda>kv. PyStr (fst kv)) d)"
| "py_iter (NDArray t shape items) = (if shape = [] then Inl TypeError else Inr items)"
| "py_iter (Void fields) = Inr fields"
| "py_iter (Bytes bs) = Inr (map (\<lambda>b. Num (IntN (int b))) bs)"
| "py_iter (Group children attrs) = Inr (map (\<lambda>kv. PyStr (fst kv)) children)"
| "py_iter (AttributeManager items) = Inr (map (\<lambda>kv. PyStr (fst kv)) items)"
| "py_iter (Dataset attrs raw) = (case raw of None \<Rightarrow> Inl OSError | Some v \<Rightarrow> py_iter v)"
| "py_iter (Num n) = Inl TypeError"
| "py_iter (PyBool b) = Inl TypeError"
| "py_iter PyNone = Inl TypeError"

section \<open>The decoder\<close>

text \<open>The last two branches of \<^verbatim>\<open>decode_group\<close> that look at a list or a tuple:
  \<^verbatim>\<open>return g[0] if len(g) == 1 else g\<close>.\<close>

fun unwrap_single :: "pyval \<Rightarrow> pyval" where
  "unwrap_single (PyList xs) = (if length xs = 1 then xs ! 0 else PyList xs)"
| "unwrap_single (PyTuple xs) = (if length xs = 1 then xs ! 0 else PyTuple xs)"
| "unwrap_single g = g"

text \<open>
  \<^verbatim>\<open>decode_group\<close> with the three comprehensions it runs:
  \<^item> \<open>decode_list\<close> is \<^verbatim>\<open>[self.decode_group(x) for x in g]\<close>;
  \<^item> \<open>convert_items\<close> is the pairs of the comprehension of \<^verbatim>\<open>convert\<close>,
    \<^verbatim>\<open>{k: self.decode_group(v) for k, v in zip(g.keys(), g.values())}\<close>;
  \<^item> \<open>void2dict_items names\<close> is the comprehension of \<^verbatim>\<open>void2dict\<close>,
    \<^verbatim>\<open>[dict(zip(obj.dtype.names, self.decode_group(record))) for record in obj]\<close>.
  The first exception raised ends the call. Where the source calls
  \<^verbatim>\<open>self.decode_group\<close> on a list it has just built, or on \<^verbatim>\<open>g.attrs\<close>, the model
  has the branch that call takes (\<open>unwrap_single\<close>, \<open>convert_items\<close>); the lemmas
  \<open>decode_group_attrs\<close>, \<open>decode_group_members\<close>, \<open>decode_group_dataset\<close>,
  \<open>decode_group_object\<close>, \<open>decode_group_structured\<close> and \<open>decode_group_record\<close>
  below give the equations as the source writes them.
\<close>

definition attributes :: pystr where
  "attributes = str ''attributes''"

definition values_key :: pystr where
  "values_key = str ''values''"

function (sequential)
  decode_group :: "pyval \<Rightarrow> pyerr + pyval" and
  decode_list :: "pyval list \<Rightarrow> pyerr + pyval list" and
  convert_items :: "(pystr \<times> pyval) list \<Rightarrow> pyerr + (pystr \<times> pyval) list" and
  void2dict_items :: "pystr list \<Rightarrow> pyval list \<Rightarrow> pyerr + pyval list"
where
  "decode_group (Group children attrs) =
     (case convert_items children of
        Inl e \<Rightarrow> Inl e
      | Inr kvs \<Rightarrow>
          if length attrs \<noteq> 0 then
            (case convert_items attrs of
               Inl e \<Rightarrow> Inl e
             | Inr avs \<Rightarrow> Inr (PyDict (AList.update attributes (PyDict (py_dict avs)) (py_dict kvs))))
          else Inr (PyDict (py_dict kvs)))"
| "decode_group (AttributeManager items) =
     (case convert_items items of Inl e \<Rightarrow> Inl e | Inr kvs \<Rightarrow> Inr (PyDict (py_dict kvs)))"
| "decode_group (Dataset attrs raw) =
     (case convert_items attrs of
        Inl e \<Rightarrow> Inl e
      | Inr avs \<Rightarrow>
          (case raw of
             Some v \<Rightarrow> Inr (PyDict (AList.update values_key v [(attributes, PyDict (py_dict avs))]))
           | None \<Rightarrow> Inr (PyDict [(attributes, PyDict (py_dict avs))])))"
| "decode_group (NDArray t shape items) =
     (if t = NumberT \<and> shape = [1] then
        (case items of [] \<Rightarrow> Inl IndexError | x # _ \<Rightarrow> Inr x)
      else if t = ObjectT then
        (if shape = [] then Inl TypeError
         else (case decode_list items of
                 Inl e \<Rightarrow> Inl e
               | Inr ys \<Rightarrow> Inr (unwrap_single (PyList ys))))
      else
        (case t of
           VoidT names \<Rightarrow>
             (if shape = [] then Inl TypeError
              else (case void2dict_items names items of
                      Inl e \<Rightarrow> Inl e
                    | Inr ds \<Rightarrow> Inr (unwrap_single (PyList ds))))
         | _ \<Rightarrow> Inr (NDArray t shape items)))"
| "decode_group (Void fields) =
     (case decode_list fields of
        Inl e \<Rightarrow> Inl e
      | Inr ys \<Rightarrow> Inr (unwrap_single (PyList ys)))"
| "decode_group (Bytes bs) =
     (case utf8_decode bs of Inl e \<Rightarrow> Inl e | Inr s \<Rightarrow> Inr (PyStr s))"
| "decode_group (PyList xs) = Inr (unwrap_single (PyList xs))"
| "decode_group (PyTuple xs) = Inr (unwrap_single (PyTuple xs))"
| "decode_group g = Inr g"
| "decode_list [] = Inr []"
| "decode_list (x # xs) =
     (case decode_group x of
        Inl e \<Rightarrow> Inl e
      | Inr y \<Rightarrow> (case decode_list xs of Inl e \<Rightarrow> Inl e | Inr ys \<Rightarrow> Inr (y # ys)))"
| "convert_items [] = Inr []"
| "convert_items ((k, v) # rest) =
     (case decode_group v of
        Inl e \<Rightarrow> Inl e
      | Inr y \<Rightarrow> (case convert_items rest of Inl e \<Rightarrow> Inl e | Inr kvs \<Rightarrow> Inr ((k, y) # kvs)))"
| "void2dict_items names [] = Inr []"
| "void2dict_items names (record # rest) =
     (case decode_group record of
        Inl e \<Rightarrow> Inl e
      | Inr r \<Rightarrow>
          (case py_iter r of
             Inl e \<Rightarrow> Inl e
           | Inr vs \<Rightarrow>
               (case void2dict_items names rest of
                  Inl e \<Rightarrow> Inl e
                | Inr ds \<Rightarrow> Inr (PyDict (py_dict (zip names vs)) # ds))))"
  by pat_completeness auto

termination
  by (relation "measure (\<lambda>a. case a of
        Inl (Inl v) \<Rightarrow> size v
      | Inl (Inr xs) \<Rightarrow> size_list size xs
      | Inr (Inl kvs) \<Rightarrow> size_list (size_prod (\<lambda>_. 0) size) kvs
      | Inr (Inr (names, recs)) \<Rightarrow> size_list size recs)") auto

text \<open>\<^verbatim>\<open>convert\<close> and \<^verbatim>\<open>void2dict\<close> as the methods of the class. \<^verbatim>\<open>convert\<close> is called
  on a group or an attribute manager; \<^verbatim>\<open>void2dict\<close> on a structured array.\<close>

definition convert :: "(pystr \<times> pyval) list \<Rightarrow> pyerr + pyval" where
  "convert g = (case convert_items g of Inl e \<Rightarrow> Inl e | Inr kvs \<Rightarrow> Inr (PyDict (py_dict kvs)))"

fun void2dict :: "pyval \<Rightarrow> pyerr + pyval" where
  "void2dict (NDArray (VoidT names) shape items) =
     (if shape = [] then Inl TypeError
      else (case void2dict_items names items of Inl e \<Rightarrow> Inl e | Inr ds \<Rightarrow> Inr (PyList ds)))"
| "void2dict obj = Inl TypeError"

text \<open>\<^verbatim>\<open>data[k] = v\<close> on a decoded group.\<close>

fun setitem :: "pyval \<Rightarrow> pystr \<Rightarrow> pyval \<Rightarrow> pyval" where
  "setitem (PyDict d) k v = PyDict (AList.update k v d)"
| "setitem g k v = g"

section \<open>The grid processor\<close>

text \<open>
  A 2-d numpy array: its shape and its cells in row-major order, which is the order of
  boolean-mask indexing. The cells of an array are all int64 values (\<open>IntN\<close>) or all
  float64 values (\<open>FloatN\<close>): the field and the grids may be given as integer arrays.
\<close>

record 'a ndarray =
  shape :: "nat \<times> nat"
  data :: "'a list"

text \<open>
  The conversion of an integer to float64, as \<^verbatim>\<open>astype(float)\<close> and the comparison of an
  integer with a float do it: the nearest number with a significand of 53 bits, the one
  with an even significand when two are equally near. \<open>exponent a\<close> is the number of
  low bits of \<open>a\<close> that do not fit. An int64 is far below the largest float64, so the
  result is finite.
\<close>

function exponent :: "nat \<Rightarrow> nat" where
  "exponent a = (if a < 9007199254740992 then 0 else Suc (exponent (a div 2)))"
  by pat_completeness auto

termination
  by (relation "measure (\<lambda>a. a)") auto

definition round_half_even :: "nat \<Rightarrow> nat" where
  "round_half_even a =
     (let e = exponent a; q = a div 2 ^ e; r = a mod 2 ^ e
      in if 2 ^ e < 2 * r \<or> (2 * r = 2 ^ e \<and> odd q) then (q + 1) * 2 ^ e else q * 2 ^ e)"

definition float64_of_int :: "int \<Rightarrow> real" where
  "float64_of_int n =
     (if n < 0 then - real (round_half_even (nat (- n))) else real (round_half_even (nat n)))"

fun to_float :: "number \<Rightarrow> fl" where
  "to_float (IntN n) = Fin (float64_of_int n)"
| "to_float (FloatN f) = f"


text \<open>The comparisons of IEEE 754: not-a-number compares false with everything, itself
  included.\<close>

definition isnan :: "fl \<Rightarrow> bool" where
  "isnan v \<longleftrightarrow> v = NaN"

definition fl_eq :: "fl \<Rightarrow> fl \<Rightarrow> bool" where
  "fl_eq a b \<longleftrightarrow> \<not> isnan a \<and> \<not> isnan b \<and> a = b"



text \<open>A cell against a scalar, as numpy compares them: two integers as integers,
  otherwise both as float64.\<close>

fun num_eq :: "number \<Rightarrow> number \<Rightarrow> bool" where
  "num_eq (IntN a) (IntN b) = (a = b)"
| "num_eq a b = fl_eq (to_float a) (to_float b)"


text \<open>The elementwise operations of numpy that the two functions use: \<^verbatim>\<open>Z == thr\<close>,
  \<^verbatim>\<open>z >= thr\<close>, \<^verbatim>\<open>np.isnan(Z)\<close> and \<^verbatim>\<open>~m\<close>.\<close>

definition cmp_eq :: "number ndarray \<Rightarrow> number \<Rightarrow> bool ndarray" where
  "cmp_eq A thr = \<lparr>shape = shape A, data = map (\<lambda>z. num_eq z thr) (data A)\<rparr>"


definition np_isnan :: "number ndarray \<Rightarrow> bool ndarray" where
  "np_isnan A = \<lparr>shape = shape A, data = map (\<lambda>z. isnan (to_float z)) (data A)\<rparr>"

definition invert :: "bool ndarray \<Rightarrow> bool ndarray" where
  "invert m = \<lparr>shape = shape m, data = map Not (data m)\<rparr>"

text \<open>\<^verbatim>\<open>A[mask]\<close>: the cells of \<open>A\<close> where the mask is true, in row-major order; numpy
  raises \<^verbatim>\<open>IndexError\<close> when the mask has not the shape of \<open>A\<close>.\<close>

definition getitem_mask :: "'a ndarray \<Rightarrow> bool ndarray \<Rightarrow> pyerr + 'a list" where
  "getitem_mask A msk =
     (if shape msk = shape A then Inr (map fst (filter snd (zip (data A) (data msk))))
      else Inl IndexError)"

text \<open>
  The arrays alive during a call are kept in a store; a reference to an array is its
  position there. \<^verbatim>\<open>np.copy\<close> allocates a copy; \<^verbatim>\<open>astype(float)\<close> (whose default is
  to copy) allocates an array of the float64 values of the cells; \<^verbatim>\<open>A[mask] = v\<close> writes
  the float \<open>v\<close> into the array \<open>A\<close> refers to, which in the source is a float array.
  The mask of the two assignments of the source is computed from the array assigned
  to, so it has its shape.
\<close>

type_synonym heap = "number ndarray list"
type_synonym ref = nat

definition alloc :: "heap \<Rightarrow> number ndarray \<Rightarrow> heap \<times> ref" where
  "alloc h A = (h @ [A], length h)"


definition astype_float :: "heap \<Rightarrow> ref \<Rightarrow> heap \<times> ref" where
  "astype_float h r = alloc h ((h ! r)\<lparr>data := map (\<lambda>c. FloatN (to_float c)) (data (h ! r))\<rparr>)"

definition setitem_mask :: "heap \<Rightarrow> ref \<Rightarrow> bool ndarray \<Rightarrow> fl \<Rightarrow> heap" where
  "setitem_mask h r msk v =
     h[r := (h ! r)\<lparr>data :=
          map (\<lambda>(x, m). if m then FloatN v else x) (zip (data (h ! r)) (data msk))\<rparr>]"


text \<open>
  \<^verbatim>\<open>scipy.interpolate.griddata(points, values, (X, Y), method='nearest')\<close> is a routine of
  a library, not of this repository: it is a parameter of the model, taking the sample
  points, the sample values and the two coordinate grids, and giving an array or raising.
\<close>

type_synonym griddata =
  "(number \<times> number) list \<Rightarrow> number list \<Rightarrow> number ndarray \<times> number ndarray \<Rightarrow>
   pyerr + number ndarray"

text \<open>The first three statements of \<^verbatim>\<open>fill_nodata\<close>: the float copy of \<open>Z\<close> with
  not-a-number written where it equals \<open>thr\<close>, and the mask of the cells that are not
  not-a-number.\<close>

definition fill_mask :: "heap \<Rightarrow> ref \<Rightarrow> number \<Rightarrow> heap \<times> ref \<times> bool ndarray" where
  "fill_mask h Z thr =
     (let (h1, Z1) = astype_float h Z;
          h2 = setitem_mask h1 Z1 (cmp_eq (h1 ! Z1) thr) NaN;
          msk = invert (np_isnan (h2 ! Z1))
      in (h2, Z1, msk))"

text \<open>\<^verbatim>\<open>fill_nodata(X, Y, Z, thr)\<close>: the sample points are \<^verbatim>\<open>column_stack((X[mask],
  Y[mask]))\<close>, the sample values \<^verbatim>\<open>Z[mask]\<close>; what \<^verbatim>\<open>griddata\<close> gives is returned.\<close>

definition fill_nodata ::
  "griddata \<Rightarrow> heap \<Rightarrow> ref \<Rightarrow> ref \<Rightarrow> ref \<Rightarrow> number \<Rightarrow> pyerr + heap \<times> ref" where
  "fill_nodata gd h X Y Z thr =
     (let (h2, Z1, msk) = fill_mask h Z thr
      in case getitem_mask (h2 ! X) msk of
           Inl e \<Rightarrow> Inl e
         | Inr xs \<Rightarrow>
             (case getitem_mask (h2 ! Y) msk of
                Inl e \<Rightarrow> Inl e
              | Inr ys \<Rightarrow>
                  (case getitem_mask (h2 ! Z1) msk of
                     Inl e \<Rightarrow> Inl e
                   | Inr vals \<Rightarrow>
                       (case gd (zip xs ys) vals (h2 ! X, h2 ! Y) of
                          Inl e \<Rightarrow> Inl e
                        | Inr R \<Rightarrow> Inr (alloc h2 R)))))"

section \<open>The decoder: the equations of the source\<close>

text \<open>The calls of \<^verbatim>\<open>self.decode_group\<close> and \<^verbatim>\<open>self.convert\<close> that the definition of
  \<open>decode_group\<close> replaced by the branch they take, written as in the source.\<close>

lemma decode_group_attrs: "decode_group (AttributeManager items) = convert items"
  by (simp add: convert_def)

lemma decode_group_members:
  "decode_group (Group children attrs) =
     (case convert children of
        Inl e \<Rightarrow> Inl e
      | Inr d \<Rightarrow>
          if length attrs \<noteq> 0 then
            (case decode_group (AttributeManager attrs) of
               Inl e \<Rightarrow> Inl e
             | Inr a \<Rightarrow> Inr (setitem d attributes a))
          else Inr d)"
  by (simp add: convert_def split: sum.splits)

lemma decode_group_dataset:
  "decode_group (Dataset attrs raw) =
     (case decode_group (AttributeManager attrs) of
        Inl e \<Rightarrow> Inl e
      | Inr a \<Rightarrow>
          (case raw of
             Some v \<Rightarrow> Inr (setitem (PyDict [(attributes, a)]) values_key v)
           | None \<Rightarrow> Inr (PyDict [(attributes, a)])))"
  by (simp split: sum.splits option.splits)

lemma decode_group_object:
  "decode_group (NDArray ObjectT shp items) =
     (case py_iter (NDArray ObjectT shp items) of
        Inl e \<Rightarrow> Inl e
      | Inr xs \<Rightarrow>
          (case decode_list xs of Inl e \<Rightarrow> Inl e | Inr ys \<Rightarrow> decode_group (PyList ys)))"
  by (simp split: sum.splits)

lemma decode_group_structured:
  "decode_group (NDArray (VoidT names) shp items) =
     (case void2dict (NDArray (VoidT names) shp items) of
        Inl e \<Rightarrow> Inl e
      | Inr l \<Rightarrow> decode_group l)"
  by (simp split: sum.splits)

lemma decode_group_record:
  "decode_group (Void fs) =
     (case decode_list fs of Inl e \<Rightarrow> Inl e | Inr ys \<Rightarrow> decode_group (PyList ys))"
  by (simp split: sum.splits)

section \<open>Keys of a decoded mapping\<close>

lemma attributes_neq_values: "attributes \<noteq> values_key"
  by (simp add: attributes_def values_key_def str_def)

lemma py_dict_keys_aux:
  "fst ` set (foldl (\<lambda>d (k, v). AList.update k v d) d kvs) = fst ` set d \<union> fst ` set kvs"
proof (induction kvs arbitrary: d)
  case Nil
  show ?case by simp
next
  case (Cons kv kvs)
  obtain k v where kv: "kv = (k, v)" by (cases kv)
  show ?case
    unfolding kv by (simp add: Cons.IH AList.dom_update)
qed

lemma py_dict_keys: "fst ` set (py_dict kvs) = fst ` set kvs"
  by (simp add: py_dict_def py_dict_keys_aux)

lemma convert_items_keys: "convert_items kvs = Inr r \<Longrightarrow> map fst r = map fst kvs"
  by (induction kvs arbitrary: r) (auto split: sum.splits)

lemma convert_items_key_set: "convert_items kvs = Inr r \<Longrightarrow> fst ` set r = fst ` set kvs"
  using convert_items_keys [of kvs r] by (metis set_map)

lemma dataset_decoded:
  "decode_group (Dataset attrs raw) =
     (case convert attrs of
        Inl e \<Rightarrow> Inl e
      | Inr a \<Rightarrow> Inr (PyDict ((attributes, a) # (case raw of None \<Rightarrow> [] | Some v \<Rightarrow> [(values_key, v)]))))"
  by (simp add: convert_def attributes_neq_values split: sum.splits option.splits)

lemma group_decoded_keys:
  assumes "decode_group (Group children attrs) = Inr r"
  shows "\<exists>d. r = PyDict d \<and>
    fst ` set d = fst ` set children \<union> (if attrs = [] then {} else {attributes})"
proof -
  from assms obtain kvs where kvs: "convert_items children = Inr kvs"
    by (auto split: sum.splits)
  have keys: "fst ` set (py_dict kvs) = fst ` set children"
    using convert_items_key_set [OF kvs] by (simp add: py_dict_keys)
  show ?thesis
  proof (cases "attrs = []")
    case True
    with assms kvs keys show ?thesis by auto
  next
    case False
    with assms kvs obtain avs where
      "r = PyDict (AList.update attributes (PyDict (py_dict avs)) (py_dict kvs))"
      by (auto split: sum.splits)
    with False keys show ?thesis by (auto simp: AList.dom_update)
  qed
qed

text \<open>The comprehensions decode their elements from left to right.\<close>

lemma decode_list_append:
  "decode_list (xs @ ys) =
     (case decode_list xs of
        Inl e \<Rightarrow> Inl e
      | Inr a \<Rightarrow> (case decode_list ys of Inl e \<Rightarrow> Inl e | Inr b \<Rightarrow> Inr (a @ b)))"
  by (induction xs) (auto split: sum.splits)

lemma convert_items_append:
  "convert_items (xs @ ys) =
     (case convert_items xs of
        Inl e \<Rightarrow> Inl e
      | Inr a \<Rightarrow> (case convert_items ys of Inl e \<Rightarrow> Inl e | Inr b \<Rightarrow> Inr (a @ b)))"
  by (induction xs) (auto split: sum.splits)

section \<open>Properties of the decoder\<close>

text \<open>
  C3, as the code has it. The test of the source is \<^verbatim>\<open>g.shape == (1,)\<close>: a numeric array
  of exactly that shape decodes to the number it holds, and so it does at any place
  among the elements of a list that is decoded and among the members or attributes that
  are converted. A numeric array of any other shape, also one that holds a single number
  such as shape \<open>(1, 1)\<close>, is returned as it is.
\<close>

theorem numeric_array_collapse:
  "decode_group (NDArray NumberT [1] [x]) = Inr x \<and>
   (shp \<noteq> [1] \<longrightarrow>
      decode_group (NDArray NumberT shp items) = Inr (NDArray NumberT shp items)) \<and>
   (decode_list before = Inr bs \<longrightarrow>
      decode_list (before @ NDArray NumberT [1] [x] # rest) =
        (case decode_list rest of Inl e \<Rightarrow> Inl e | Inr ys \<Rightarrow> Inr (bs @ x # ys))) \<and>
   (convert_items kbefore = Inr kbs \<longrightarrow>
      convert_items (kbefore @ (k, NDArray NumberT [1] [x]) # kvs) =
        (case convert_items kvs of Inl e \<Rightarrow> Inl e | Inr r \<Rightarrow> Inr (kbs @ (k, x) # r)))"
  by (simp add: decode_list_append convert_items_append split: sum.splits)

theorem numeric_array_collapse_witness:
  "decode_group (NDArray NumberT [1] [Num (IntN 42)]) = Inr (Num (IntN 42)) \<and>
   decode_group (NDArray NumberT [1, 1] [NDArray NumberT [1] [Num (IntN 42)]]) =
     Inr (NDArray NumberT [1, 1] [NDArray NumberT [1] [Num (IntN 42)]]) \<and>
   decode_list [PyNone] = Inr [PyNone] \<and>
   decode_list [PyNone, NDArray NumberT [1] [Num (IntN 42)]] = Inr [PyNone, Num (IntN 42)] \<and>
   convert_items [(str ''Unit'', Bytes [109, 109])] = Inr [(str ''Unit'', PyStr [109, 109])] \<and>
   convert_items [(str ''Unit'', Bytes [109, 109]),
                  (str ''No Data'', NDArray NumberT [1] [Num (IntN 42)])] =
     Inr [(str ''Unit'', PyStr [109, 109]), (str ''No Data'', Num (IntN 42))]"
  using numeric_array_collapse [of "Num (IntN 42)" "[1, 1]" "[NDArray NumberT [1] [Num (IntN 42)]]"
      "[PyNone]" "[PyNone]" "[]" "[(str ''Unit'', Bytes [109, 109])]"
      "[(str ''Unit'', PyStr [109, 109])]" "str ''No Data''" "[]"]
  by simp

text \<open>C3 as stated fails: an array of shape \<open>(1, 1)\<close> holding the number 42 does not
  decode to the bare number.\<close>

theorem collapse_shape_counterexample:
  "decode_group (NDArray NumberT [1, 1] [NDArray NumberT [1] [Num (IntN 42)]]) \<noteq> Inr (Num (IntN 42))"
  by simp

text \<open>
  C6. Decoding a dataset raises only what decoding its attributes raises. Otherwise the
  result is a mapping whose key \<^verbatim>\<open>attributes\<close> holds the decoded attributes (the empty
  mapping when there are none) and whose key \<^verbatim>\<open>values\<close> is present exactly when the
  read of the raw value succeeded, holding that value; a failed read raises nothing.
\<close>

theorem dataset_keys:
  "(case convert attrs of
      Inl e \<Rightarrow> decode_group (Dataset attrs raw) = Inl e
    | Inr a \<Rightarrow>
        (\<exists>d. decode_group (Dataset attrs raw) = Inr (PyDict d) \<and>
             map_of d attributes = Some a \<and>
             map_of d values_key = raw \<and>
             (values_key \<in> fst ` set d \<longleftrightarrow> raw \<noteq> None)))"
  using attributes_neq_values
  unfolding dataset_decoded by (auto split: sum.splits option.splits)

theorem dataset_keys_witness:
  "(\<exists>d. decode_group (Dataset [] None) = Inr (PyDict d) \<and>
        map_of d attributes = Some (PyDict []) \<and> map_of d values_key = None) \<and>
   (\<exists>d. decode_group (Dataset [] (Some (Num (IntN 7)))) = Inr (PyDict d) \<and>
        map_of d attributes = Some (PyDict []) \<and> map_of d values_key = Some (Num (IntN 7)))"
  using dataset_keys [of "[]" None] dataset_keys [of "[]" "Some (Num (IntN 7))"]
  by (simp add: convert_def py_dict_def)

text \<open>
  C7. The structured array with the fields \<^verbatim>\<open>field1\<close> (integer) and \<^verbatim>\<open>field2\<close> (float)
  and the records \<open>(1, 2.0)\<close> and \<open>(3, 4.0)\<close> decodes, and converts with
  \<^verbatim>\<open>void2dict\<close>, to a list of two mappings keyed by the field names; the first maps
  \<^verbatim>\<open>field1\<close> to 1, the second \<^verbatim>\<open>field2\<close> to 4.0.
\<close>

theorem structured_record_decode:
  "decode_group (NDArray (VoidT [str ''field1'', str ''field2'']) [2]
        [Void [Num (IntN 1), Num (FloatN (Fin 2))], Void [Num (IntN 3), Num (FloatN (Fin 4))]])
   = Inr (PyList [PyDict [(str ''field1'', Num (IntN 1)), (str ''field2'', Num (FloatN (Fin 2)))],
                  PyDict [(str ''field1'', Num (IntN 3)), (str ''field2'', Num (FloatN (Fin 4)))]]) \<and>
   void2dict (NDArray (VoidT [str ''field1'', str ''field2'']) [2]
        [Void [Num (IntN 1), Num (FloatN (Fin 2))], Void [Num (IntN 3), Num (FloatN (Fin 4))]])
   = Inr (PyList [PyDict [(str ''field1'', Num (IntN 1)), (str ''field2'', Num (FloatN (Fin 2)))],
                  PyDict [(str ''field1'', Num (IntN 3)), (str ''field2'', Num (FloatN (Fin 4)))]]) \<and>
   map_of [(str ''field1'', Num (IntN 1)), (str ''field2'', Num (FloatN (Fin 2)))] (str ''field1'')
   = Some (Num (IntN 1)) \<and>
   map_of [(str ''field1'', Num (IntN 3)), (str ''field2'', Num (FloatN (Fin 4)))] (str ''field2'')
   = Some (Num (FloatN (Fin 4)))"
  by (simp add: py_dict_def str_def)

text \<open>
  C8. A list or a tuple of length one decodes to its element; a list or a tuple of
  length two or more decodes to itself.
\<close>

theorem singleton_unwrap:
  "(length xs = 1 \<longrightarrow>
      decode_group (PyList xs) = Inr (hd xs) \<and> decode_group (PyTuple xs) = Inr (hd xs)) \<and>
   (2 \<le> length xs \<longrightarrow>
      decode_group (PyList xs) = Inr (PyList xs) \<and> decode_group (PyTuple xs) = Inr (PyTuple xs))"
  by (cases xs) auto

theorem singleton_unwrap_witness:
  "decode_group (PyList [PyStr (str ''a'')]) = Inr (PyStr (str ''a'')) \<and>
   decode_group (PyTuple [PyStr (str ''a'')]) = Inr (PyStr (str ''a'')) \<and>
   decode_group (PyList [PyNone, PyBool True]) = Inr (PyList [PyNone, PyBool True]) \<and>
   decode_group (PyTuple [PyNone, PyBool True]) = Inr (PyTuple [PyNone, PyBool True])"
  using singleton_unwrap [of "[PyStr (str ''a'')]"] singleton_unwrap [of "[PyNone, PyBool True]"]
  by simp

text \<open>
  C9. A record with one numeric field decodes to the bare number, so for a structured
  array with one numeric field and at least one record \<^verbatim>\<open>zip\<close> raises \<^verbatim>\<open>TypeError\<close>, in
  \<^verbatim>\<open>void2dict\<close> and so in \<^verbatim>\<open>decode_group\<close>. With one byte-string field nothing is raised:
  the field name is paired with the first character of the decoded string.
\<close>

theorem one_field_record_decode:
  "decode_group (Void [Num x]) = Inr (Num x) \<and>
   void2dict (NDArray (VoidT [name]) shp (Void [Num x] # records)) = Inl TypeError \<and>
   decode_group (NDArray (VoidT [name]) shp (Void [Num x] # records)) = Inl TypeError \<and>
   decode_group (NDArray (VoidT [str ''name'']) [2]
       [Void [Bytes [104, 101, 108, 108, 111]], Void [Bytes [119, 111, 114, 108, 100]]]) =
     Inr (PyList [PyDict [(str ''name'', PyStr (str ''h''))],
                  PyDict [(str ''name'', PyStr (str ''w''))]])"
  by (simp add: py_dict_def str_def)

text \<open>
  C10, as the code has it. When a group decodes, the result is a mapping that has the
  key \<^verbatim>\<open>attributes\<close> exactly when the group carries at least one attribute or has a
  member of that name; a decoded dataset always has the key.
\<close>

theorem group_attributes_key:
  "(decode_group (Group children attrs) = Inr r \<longrightarrow>
      (\<exists>d. r = PyDict d \<and>
           (attributes \<in> fst ` set d \<longleftrightarrow> attrs \<noteq> [] \<or> attributes \<in> fst ` set children))) \<and>
   (decode_group (Dataset attrs raw) = Inr r' \<longrightarrow>
      (\<exists>d. r' = PyDict d \<and> attributes \<in> fst ` set d))"
proof (intro conjI impI)
  assume "decode_group (Group children attrs) = Inr r"
  from group_decoded_keys [OF this]
  show "\<exists>d. r = PyDict d \<and>
    (attributes \<in> fst ` set d \<longleftrightarrow> attrs \<noteq> [] \<or> attributes \<in> fst ` set children)"
    by auto
next
  assume "decode_group (Dataset attrs raw) = Inr r'"
  then show "\<exists>d. r' = PyDict d \<and> attributes \<in> fst ` set d"
    unfolding dataset_decoded by (auto split: sum.splits)
qed

theorem group_attributes_key_witness:
  "decode_group (Group [] []) = Inr (PyDict []) \<and>
   attributes \<notin> fst ` set ([] :: (pystr \<times> pyval) list) \<and>
   decode_group (Group [] [(str ''unit'', PyStr (str ''mm''))]) =
     Inr (PyDict [(attributes, PyDict [(str ''unit'', PyStr (str ''mm''))])]) \<and>
   (\<exists>d. PyDict [(attributes, PyDict [(str ''unit'', PyStr (str ''mm''))])] = PyDict d \<and>
        attributes \<in> fst ` set d) \<and>
   decode_group (Dataset [] None) = Inr (PyDict [(attributes, PyDict [])])"
  using group_attributes_key [of "[]" "[]" "PyDict []" None "PyDict [(attributes, PyDict [])]"]
    group_attributes_key [of "[]" "[(str ''unit'', PyStr (str ''mm''))]"
      "PyDict [(attributes, PyDict [(str ''unit'', PyStr (str ''mm''))])]" None
      "PyDict [(attributes, PyDict [])]"]
  by (simp add: py_dict_def)

text \<open>C10 as stated fails: a group without attributes that has a member named
  \<^verbatim>\<open>attributes\<close> decodes to a mapping with that key.\<close>

theorem group_attributes_counterexample:
  "\<exists>d. decode_group (Group [(attributes, Group [] [])] []) = Inr (PyDict d) \<and>
       attributes \<in> fst ` set d"
  by (simp add: py_dict_def)

section \<open>Properties of the grid processor\<close>

lemma masked_assign:
  "map (\<lambda>(x, m). if m then v else x) (zip (map g xs) (map p xs)) =
   map (\<lambda>x. if p x then v else g x) xs"
  by (induction xs) auto


lemma num_eq_float: "num_eq (FloatN f) t = fl_eq f (to_float t)"
  by (cases t) simp_all


lemma fill_mask_result:
  assumes "Z < length h"
  shows "fill_mask h Z thr =
    (h @ [(h ! Z)\<lparr>data := map (\<lambda>c. if fl_eq (to_float c) (to_float thr) then FloatN NaN
                                   else FloatN (to_float c)) (data (h ! Z))\<rparr>],
     length h,
     \<lparr>shape = shape (h ! Z),
      data = map (\<lambda>c. \<not> isnan (to_float c) \<and> \<not> fl_eq (to_float c) (to_float thr))
               (data (h ! Z))\<rparr>)"
  using assms
  by (simp add: fill_mask_def astype_float_def alloc_def setitem_mask_def cmp_eq_def
      np_isnan_def invert_def nth_append masked_assign num_eq_float o_def isnan_def)








lemma filter_none: "\<forall>x \<in> set xs. \<not> P x \<Longrightarrow> filter P xs = []"
  by (induction xs) auto

lemma getitem_mask_none:
  assumes "shape msk = shape A" "\<forall>m \<in> set (data msk). \<not> m"
  shows "getitem_mask A msk = Inr []"
proof -
  have "\<forall>p \<in> set (zip (data A) (data msk)). \<not> snd p"
    using assms(2) by (auto dest: set_zip_rightD)
  then have "filter snd (zip (data A) (data msk)) = []"
    by (rule filter_none)
  with assms(1) show ?thesis by (simp add: getitem_mask_def)
qed

lemma fill_nodata_empty_samples:
  assumes "X < length h" "Y < length h" "Z < length h"
    and "shape (h ! X) = shape (h ! Z)" "shape (h ! Y) = shape (h ! Z)"
    and "\<forall>v \<in> set (data (h ! Z)). fl_eq (to_float v) (to_float thr) \<or> isnan (to_float v)"
  shows "fill_nodata gd h X Y Z thr =
    (case gd [] [] (h ! X, h ! Y) of
       Inl e \<Rightarrow> Inl e
     | Inr R \<Rightarrow>
         Inr (h @ [(h ! Z)\<lparr>data := map (\<lambda>v. FloatN NaN) (data (h ! Z))\<rparr>, R],
              Suc (length h)))"
proof -
  let ?Z1 = "(h ! Z)\<lparr>data := map (\<lambda>c. if fl_eq (to_float c) (to_float thr) then FloatN NaN
                                   else FloatN (to_float c)) (data (h ! Z))\<rparr>"
  let ?msk = "\<lparr>shape = shape (h ! Z),
    data = map (\<lambda>c. \<not> isnan (to_float c) \<and> \<not> fl_eq (to_float c) (to_float thr))
      (data (h ! Z))\<rparr> :: bool ndarray"
  have none: "\<forall>m \<in> set (data ?msk). \<not> m"
    using assms(6) by auto
  have "map (\<lambda>c. if fl_eq (to_float c) (to_float thr) then FloatN NaN
                   else FloatN (to_float c)) (data (h ! Z)) =
        map (\<lambda>v. FloatN NaN) (data (h ! Z))"
    using assms(6) by (auto simp: isnan_def)
  then have Z1: "?Z1 = (h ! Z)\<lparr>data := map (\<lambda>v. FloatN NaN) (data (h ! Z))\<rparr>"
    by simp
  have gx: "getitem_mask (h ! X) ?msk = Inr []"
    using assms(4) none by (intro getitem_mask_none) simp_all
  have gy: "getitem_mask (h ! Y) ?msk = Inr []"
    using assms(5) none by (intro getitem_mask_none) simp_all
  have gz: "getitem_mask ?Z1 ?msk = Inr []"
    using none by (intro getitem_mask_none) simp_all
  show ?thesis
    using assms(1-3) gx gy gz
    by (simp add: fill_nodata_def fill_mask_result nth_append alloc_def Z1 split: sum.splits)
qed

text \<open>The sample values that \<^verbatim>\<open>fill_nodata\<close> hands to \<^verbatim>\<open>griddata\<close> are the float64
  values of the cells of \<open>Z\<close>, in row-major order, that are neither not-a-number nor
  equal to \<open>thr\<close>.\<close>

lemma select_by_mask:
  "map fst (filter snd (zip (map f xs) (map p xs))) = map f (filter p xs)"
  by (induction xs) auto

lemma keep_valid:
  "map (\<lambda>c. if fl_eq (to_float c) t then FloatN NaN else FloatN (to_float c))
     (filter (\<lambda>c. \<not> isnan (to_float c) \<and> \<not> fl_eq (to_float c) t) xs) =
   map (\<lambda>c. FloatN (to_float c))
     (filter (\<lambda>c. \<not> isnan (to_float c) \<and> \<not> fl_eq (to_float c) t) xs)"
  by (induction xs) auto

lemma fill_nodata_samples:
  assumes "Z < length h"
  shows "case fill_mask h Z thr of (h2, Z1, msk) \<Rightarrow>
     getitem_mask (h2 ! Z1) msk =
       Inr (map (\<lambda>c. FloatN (to_float c))
             (filter (\<lambda>c. \<not> isnan (to_float c) \<and> \<not> fl_eq (to_float c) (to_float thr))
               (data (h ! Z))))"
  using assms
  by (simp add: fill_mask_result nth_append getitem_mask_def select_by_mask keep_valid)

text \<open>
  C4, as the code has it. When every cell of \<open>Z\<close> equals \<open>thr\<close>, \<^verbatim>\<open>fill_nodata\<close> checks
  nothing itself: it calls \<^verbatim>\<open>griddata\<close> with no sample point and no sample value, raises
  what that call raises and returns the array that call returns.
\<close>

theorem fill_nodata_no_samples:
  assumes "X < length h" "Y < length h" "Z < length h"
    and "shape (h ! X) = shape (h ! Z)" "shape (h ! Y) = shape (h ! Z)"
    and "\<forall>v \<in> set (data (h ! Z)). fl_eq (to_float v) (to_float thr)"
  shows "case gd [] [] (h ! X, h ! Y) of
       Inl e \<Rightarrow> fill_nodata gd h X Y Z thr = Inl e
     | Inr R \<Rightarrow> (\<exists>h' r. fill_nodata gd h X Y Z thr = Inr (h', r) \<and> h' ! r = R)"
  using assms
  by (simp add: fill_nodata_empty_samples nth_append split: sum.splits)

theorem fill_nodata_no_samples_witness:
  "fl_eq (to_float (FloatN (Fin 5))) (to_float (FloatN (Fin 5))) \<and>
   fill_nodata (\<lambda>ps vs g. if ps = [] then Inl IndexError else Inr (fst g))
        [\<lparr>shape = (1, 2), data = [FloatN (Fin 0), FloatN (Fin 1)]\<rparr>,
         \<lparr>shape = (1, 2), data = [FloatN (Fin 0), FloatN (Fin 0)]\<rparr>,
         \<lparr>shape = (1, 2), data = [FloatN (Fin 5), FloatN (Fin 5)]\<rparr>] 0 1 2 (FloatN (Fin 5)) =
     Inl IndexError"
  using fill_nodata_no_samples [of 0
        "[\<lparr>shape = (1, 2), data = [FloatN (Fin 0), FloatN (Fin 1)]\<rparr>,
          \<lparr>shape = (1, 2), data = [FloatN (Fin 0), FloatN (Fin 0)]\<rparr>,
          \<lparr>shape = (1, 2), data = [FloatN (Fin 5), FloatN (Fin 5)]\<rparr>]" 1 2 "FloatN (Fin 5)"
        "\<lambda>ps vs g. if ps = [] then Inl IndexError else Inr (fst g)"]
  by (simp add: fl_eq_def isnan_def)

text \<open>C4 as stated fails: on a field whose two cells equal \<open>thr\<close> it is not so that
  \<^verbatim>\<open>fill_nodata\<close> raises \<open>InsufficientDataError\<close> whatever \<^verbatim>\<open>griddata\<close> does.\<close>

theorem fill_nodata_counterexample:
  "\<not> (\<forall>gd. fill_nodata gd
        [\<lparr>shape = (1, 2), data = [FloatN (Fin 0), FloatN (Fin 1)]\<rparr>,
         \<lparr>shape = (1, 2), data = [FloatN (Fin 0), FloatN (Fin 0)]\<rparr>,
         \<lparr>shape = (1, 2), data = [FloatN (Fin 5), FloatN (Fin 5)]\<rparr>] 0 1 2 (FloatN (Fin 5)) =
      Inl InsufficientDataError)"
proof
  assume "\<forall>gd. fill_nodata gd
        [\<lparr>shape = (1, 2), data = [FloatN (Fin 0), FloatN (Fin 1)]\<rparr>,
         \<lparr>shape = (1, 2), data = [FloatN (Fin 0), FloatN (Fin 0)]\<rparr>,
         \<lparr>shape = (1, 2), data = [FloatN (Fin 5), FloatN (Fin 5)]\<rparr>] 0 1 2 (FloatN (Fin 5)) =
      Inl InsufficientDataError"
  then have "fill_nodata (\<lambda>ps vs g. Inr (fst g))
        [\<lparr>shape = (1, 2), data = [FloatN (Fin 0), FloatN (Fin 1)]\<rparr>,
         \<lparr>shape = (1, 2), data = [FloatN (Fin 0), FloatN (Fin 0)]\<rparr>,
         \<lparr>shape = (1, 2), data = [FloatN (Fin 5), FloatN (Fin 5)]\<rparr>] 0 1 2 (FloatN (Fin 5)) =
      Inl InsufficientDataError"
    by blast
  then show False
    by (simp add: fill_nodata_def fill_mask_def astype_float_def alloc_def setitem_mask_def
        cmp_eq_def np_isnan_def invert_def getitem_mask_def fl_eq_def isnan_def)
qed

end
